theory Spec2Isabelle
  imports Complex_Main
begin

section \<open>Data model of \<open>LayerInfoV2.cpp\<close>\<close>

text \<open>
  \<open>nsecs_t\<close> is a signed 64-bit count of nanoseconds. It is modelled as \<open>int\<close>; every
  addition and subtraction the source performs on it goes through \<open>s64\<close>, the
  two's-complement wrap-around of a 64-bit register. (Signed overflow is undefined in
  C++; wrap-around is what the hardware does. The general theorems below use no property
  of \<open>s64\<close> other than \<open>s64 0 = 0\<close>.)
\<close>

type_synonym nsecs_t = int

definition s64 :: "int \<Rightarrow> nsecs_t" where
  "s64 x = (x + 9223372036854775808) mod 18446744073709551616 - 9223372036854775808"

text \<open>
  Modelled from the spec: \<open>LayerHistory::LayerVoteType\<close> is declared in a header that is
  not part of the source. The spec lists the kinds as Heuristic, Min, Max and further
  explicit kinds; the further kinds are numbered.
\<close>

datatype LayerVoteType = Heuristic | Min_vote | Max_vote | ExplicitOther nat

text \<open>The struct \<open>FrameTimeData\<close> (the field name \<open>presetTime\<close> is the source's).\<close>

record FrameTimeData =
  presetTime :: nsecs_t
  queueTime :: nsecs_t

text \<open>
  The constants of the class come from the header, which is not part of the source; they
  are parameters of the model. \<open>MAX_FREQUENT_LAYER_PERIOD_NS\<close> and \<open>HISTORY_TIME\<close> hold the
  value of \<open>.count()\<close>, in nanoseconds.
\<close>

record config =
  HISTORY_SIZE :: nat
  FREQUENT_LAYER_WINDOW_SIZE :: nat
  MAX_FREQUENT_LAYER_PERIOD_NS :: nsecs_t
  HISTORY_TIME :: nsecs_t

text \<open>
  The type \<open>float\<close> and its arithmetic are a parameter as well: \<open>'f\<close> is the type of
  floats and a \<open>float_ops\<close> gives the operations the source applies to them, so that every
  theorem holds for whatever the arithmetic of the platform does (rounding, infinities,
  NaN). \<open>f_of_nsecs\<close> and \<open>f_of_size\<close> are the implicit conversions from \<open>nsecs_t\<close> and
  \<open>size_t\<close>; \<open>f_gt a b\<close> is \<open>a > b\<close>; the four literals are \<open>0\<close>, \<open>2\<close>, \<open>1e9f\<close> and
  \<open>MARGIN = 1.0f\<close>.
\<close>

record 'f float_ops =
  f_of_nsecs :: "nsecs_t \<Rightarrow> 'f"
  f_of_size :: "nat \<Rightarrow> 'f"
  f_sub :: "'f \<Rightarrow> 'f \<Rightarrow> 'f"
  f_mul :: "'f \<Rightarrow> 'f \<Rightarrow> 'f"
  f_div :: "'f \<Rightarrow> 'f \<Rightarrow> 'f"
  f_abs :: "'f \<Rightarrow> 'f"
  f_gt :: "'f \<Rightarrow> 'f \<Rightarrow> bool"
  f_zero :: 'f
  f_two :: 'f
  f_1e9 :: 'f
  MARGIN :: 'f

text \<open>The struct \<open>LayerVote\<close> and the data members of the class.\<close>

record 'f LayerVote =
  vote_type :: LayerVoteType
  fps :: 'f

record 'f LayerInfoV2_state =
  mHighRefreshRatePeriod :: nsecs_t
  mDefaultVote :: LayerVoteType
  mLayerVote :: "'f LayerVote"
  mLastUpdatedTime :: nsecs_t
  mFrameTimes :: "FrameTimeData list"
  mLastReportedRefreshRate :: 'f

text \<open>
  An access outside the deque (\<open>front()\<close> or \<open>back()\<close> of an empty deque, an iterator
  before \<open>begin()\<close> or at \<open>end()\<close>) is undefined behaviour; the model returns it as an
  error.
\<close>

datatype error = OutOfBounds

definition deque_front :: "'a list \<Rightarrow> error + 'a" where
  "deque_front xs = (case xs of [] \<Rightarrow> Inl OutOfBounds | x # _ \<Rightarrow> Inr x)"

definition deque_back :: "'a list \<Rightarrow> error + 'a" where
  "deque_back xs = (if xs = [] then Inl OutOfBounds else Inr (last xs))"

definition deque_at :: "'a list \<Rightarrow> nat \<Rightarrow> error + 'a" where
  "deque_at xs i = (if i < length xs then Inr (xs ! i) else Inl OutOfBounds)"

section \<open>The operations\<close>

text \<open>
  The constructor. \<open>mLastUpdatedTime\<close> and \<open>mLastReportedRefreshRate\<close> get their initial
  values from the header, so the model takes them as arguments; the deque starts empty.
\<close>

definition LayerInfoV2 ::
  "'f float_ops \<Rightarrow> nsecs_t \<Rightarrow> LayerVoteType \<Rightarrow> nsecs_t \<Rightarrow> 'f \<Rightarrow> 'f LayerInfoV2_state" where
  "LayerInfoV2 ops highRefreshRatePeriod defaultVote lastUpdated0 lastRate0 =
     \<lparr>mHighRefreshRatePeriod = highRefreshRatePeriod,
      mDefaultVote = defaultVote,
      mLayerVote = \<lparr>vote_type = defaultVote, fps = f_zero ops\<rparr>,
      mLastUpdatedTime = lastUpdated0,
      mFrameTimes = [],
      mLastReportedRefreshRate = lastRate0\<rparr>"

definition setLastPresentTime ::
  "config \<Rightarrow> nsecs_t \<Rightarrow> nsecs_t \<Rightarrow> 'f LayerInfoV2_state \<Rightarrow> 'f LayerInfoV2_state" where
  "setLastPresentTime cfg lastPresentTime0 now st =
     (let lastPresentTime = max lastPresentTime0 0;
          updated = max lastPresentTime now;
          frameTime = \<lparr>presetTime = lastPresentTime, queueTime = updated\<rparr>;
          pushed = mFrameTimes st @ [frameTime]
      in st\<lparr>mLastUpdatedTime := updated,
            mFrameTimes := (if length pushed > HISTORY_SIZE cfg then tl pushed else pushed)\<rparr>)"

text \<open>
  \<open>getActiveLayerThreshold\<close> is declared in the header; it is an argument here.
\<close>

definition isRecentlyActive ::
  "(nsecs_t \<Rightarrow> nsecs_t) \<Rightarrow> 'f LayerInfoV2_state \<Rightarrow> nsecs_t \<Rightarrow> error + bool" where
  "isRecentlyActive getActiveLayerThreshold st now =
     (if mFrameTimes st = [] then Inr False
      else case deque_back (mFrameTimes st) of
             Inl e \<Rightarrow> Inl e
           | Inr b \<Rightarrow> Inr (queueTime b \<ge> getActiveLayerThreshold now))"

definition isFrequent :: "config \<Rightarrow> 'f LayerInfoV2_state \<Rightarrow> nsecs_t \<Rightarrow> error + bool" where
  "isFrequent cfg st now =
     (if length (mFrameTimes st) < FREQUENT_LAYER_WINDOW_SIZE cfg then Inr True
      else case deque_at (mFrameTimes st)
                  (length (mFrameTimes st) - FREQUENT_LAYER_WINDOW_SIZE cfg) of
             Inl e \<Rightarrow> Inl e
           | Inr it \<Rightarrow>
               (let threshold = s64 (now - MAX_FREQUENT_LAYER_PERIOD_NS cfg)
                in Inr (queueTime it \<ge> threshold)))"

definition hasEnoughDataForHeuristic :: "config \<Rightarrow> 'f LayerInfoV2_state \<Rightarrow> error + bool" where
  "hasEnoughDataForHeuristic cfg st =
     (if length (mFrameTimes st) < HISTORY_SIZE cfg then
        (case deque_back (mFrameTimes st) of
           Inl e \<Rightarrow> Inl e
         | Inr b \<Rightarrow>
             (case deque_front (mFrameTimes st) of
                Inl e \<Rightarrow> Inl e
              | Inr f \<Rightarrow>
                  if s64 (queueTime b - queueTime f) < HISTORY_TIME cfg then Inr False
                  else Inr True))
      else Inr True)"

text \<open>
  The delta of one pair of consecutive samples, as both loops of
  \<open>calculateRefreshRateIfPossible\<close> compute it.
\<close>

definition presentTimeDelta :: "nsecs_t \<Rightarrow> FrameTimeData \<Rightarrow> FrameTimeData \<Rightarrow> nsecs_t" where
  "presentTimeDelta period a b = max (s64 (presetTime b - presetTime a)) period"

text \<open>
  The first loop, \<open>for (it = begin(); it != end() - 1; ++it)\<close>. The list argument is the
  deque from \<open>it\<close> on and the last argument is \<open>totalPresentTimeDeltas\<close>. \<open>Inr None\<close> is the
  \<open>return std::nullopt\<close> inside the loop. On an empty deque \<open>end() - 1\<close> lies before
  \<open>begin()\<close>.
\<close>

fun sumLoop :: "nsecs_t \<Rightarrow> FrameTimeData list \<Rightarrow> nsecs_t \<Rightarrow> error + nsecs_t option" where
  "sumLoop period [] totalPresentTimeDeltas = Inl OutOfBounds"
| "sumLoop period [a] totalPresentTimeDeltas = Inr (Some totalPresentTimeDeltas)"
| "sumLoop period (a # b # rest) totalPresentTimeDeltas =
     (if presetTime a = 0 \<or> presetTime b = 0 then Inr None
      else sumLoop period (b # rest)
             (s64 (totalPresentTimeDeltas + presentTimeDelta period a b)))"

text \<open>
  The second loop; \<open>Inr False\<close> is its \<open>return std::nullopt\<close>, \<open>Inr True\<close> is reaching the
  end of the loop.
\<close>

fun burstLoop ::
  "'f float_ops \<Rightarrow> nsecs_t \<Rightarrow> 'f \<Rightarrow> FrameTimeData list \<Rightarrow> error + bool" where
  "burstLoop ops period average [] = Inl OutOfBounds"
| "burstLoop ops period average [a] = Inr True"
| "burstLoop ops period average (a # b # rest) =
     (let presentTimeDeltas = presentTimeDelta period a b
      in if f_gt ops (f_abs ops (f_sub ops (f_of_nsecs ops presentTimeDeltas) average))
                     (f_mul ops (f_two ops) average)
         then Inr False
         else burstLoop ops period average (b # rest))"

text \<open>
  The two float values the function computes between the loops and after them:
  \<open>averageFrameTime\<close> from the total of the first loop, and \<open>refreshRate\<close> from it.
  \<open>mFrameTimes.size() - 1\<close> is computed in \<open>size_t\<close>; the deque is not empty where the
  source reaches it, so the subtraction does not wrap.
\<close>

definition averageFrameTime :: "'f float_ops \<Rightarrow> 'f LayerInfoV2_state \<Rightarrow> nsecs_t \<Rightarrow> 'f" where
  "averageFrameTime ops st totalPresentTimeDeltas =
     f_div ops (f_of_nsecs ops totalPresentTimeDeltas)
               (f_of_size ops (length (mFrameTimes st) - 1))"

definition refreshRate :: "'f float_ops \<Rightarrow> 'f \<Rightarrow> 'f" where
  "refreshRate ops average = f_div ops (f_1e9 ops) average"

text \<open>The last four lines of \<open>calculateRefreshRateIfPossible\<close>: the hysteresis.\<close>

definition reportRate ::
  "'f float_ops \<Rightarrow> 'f \<Rightarrow> 'f LayerInfoV2_state \<Rightarrow> 'f option \<times> 'f LayerInfoV2_state" where
  "reportRate ops average st =
     (let rate = refreshRate ops average;
          st' = (if f_gt ops (f_abs ops (f_sub ops rate (mLastReportedRefreshRate st)))
                             (MARGIN ops)
                 then st\<lparr>mLastReportedRefreshRate := rate\<rparr>
                 else st)
      in (Some (mLastReportedRefreshRate st'), st'))"

definition calculateRefreshRateIfPossible ::
  "'f float_ops \<Rightarrow> config \<Rightarrow> 'f LayerInfoV2_state \<Rightarrow>
     error + ('f option \<times> 'f LayerInfoV2_state)" where
  "calculateRefreshRateIfPossible ops cfg st =
     (case hasEnoughDataForHeuristic cfg st of
        Inl e \<Rightarrow> Inl e
      | Inr False \<Rightarrow> Inr (None, st)
      | Inr True \<Rightarrow>
          (case sumLoop (mHighRefreshRatePeriod st) (mFrameTimes st) 0 of
             Inl e \<Rightarrow> Inl e
           | Inr None \<Rightarrow> Inr (None, st)
           | Inr (Some totalPresentTimeDeltas) \<Rightarrow>
               (let average = averageFrameTime ops st totalPresentTimeDeltas
                in case burstLoop ops (mHighRefreshRatePeriod st) average (mFrameTimes st) of
                     Inl e \<Rightarrow> Inl e
                   | Inr False \<Rightarrow> Inr (None, st)
                   | Inr True \<Rightarrow> Inr (reportRate ops average st))))"

definition getRefreshRate ::
  "'f float_ops \<Rightarrow> config \<Rightarrow> 'f LayerInfoV2_state \<Rightarrow> nsecs_t \<Rightarrow>
     error + ((LayerVoteType \<times> 'f) \<times> 'f LayerInfoV2_state)" where
  "getRefreshRate ops cfg st now =
     (if vote_type (mLayerVote st) \<noteq> Heuristic
      then Inr ((vote_type (mLayerVote st), fps (mLayerVote st)), st)
      else case isFrequent cfg st now of
             Inl e \<Rightarrow> Inl e
           | Inr False \<Rightarrow> Inr ((Min_vote, f_zero ops), st)
           | Inr True \<Rightarrow>
               (case calculateRefreshRateIfPossible ops cfg st of
                  Inl e \<Rightarrow> Inl e
                | Inr (Some rate, st') \<Rightarrow> Inr ((Heuristic, rate), st')
                | Inr (None, st') \<Rightarrow> Inr ((Max_vote, f_zero ops), st')))"

section \<open>Runs, and the notions the properties are stated with\<close>

text \<open>A sequence of calls \<open>setLastPresentTime(lastPresentTime, now)\<close>, oldest first.\<close>

definition recordEvents ::
  "config \<Rightarrow> (nsecs_t \<times> nsecs_t) list \<Rightarrow> 'f LayerInfoV2_state \<Rightarrow> 'f LayerInfoV2_state" where
  "recordEvents cfg calls st =
     foldl (\<lambda>s (lastPresentTime, now). setLastPresentTime cfg lastPresentTime now s) st calls"

text \<open>
  The calls whose samples are still in the history after the whole sequence: the last
  \<open>HISTORY_SIZE\<close> of them.
\<close>

definition storedCalls :: "config \<Rightarrow> (nsecs_t \<times> nsecs_t) list \<Rightarrow> (nsecs_t \<times> nsecs_t) list" where
  "storedCalls cfg calls = drop (length calls - HISTORY_SIZE cfg) calls"

text \<open>The sample one call stores: the present time clamped at 0, and the later of it and \<open>now\<close>.\<close>

definition sampleOf :: "nsecs_t \<times> nsecs_t \<Rightarrow> FrameTimeData" where
  "sampleOf call =
     \<lparr>presetTime = max (fst call) 0, queueTime = max (max (fst call) 0) (snd call)\<rparr>"

text \<open>
  The estimator in the words of the specification, written without the functions of the
  code: the deltas \<open>d_i = max (presentTime (i+1) - presentTime i) highRefreshRatePeriod\<close> of
  the consecutive pairs (a 64-bit difference), their average (the sum is a 64-bit sum,
  the division the float division), and the test that one delta deviates from the
  average by more than twice the average.
\<close>

definition deltas :: "nsecs_t \<Rightarrow> FrameTimeData list \<Rightarrow> nsecs_t list" where
  "deltas highRefreshRatePeriod h =
     map (\<lambda>(earlier, later).
            max (s64 (presetTime later - presetTime earlier)) highRefreshRatePeriod)
         (zip h (tl h))"

definition averageDelta :: "'f float_ops \<Rightarrow> 'f LayerInfoV2_state \<Rightarrow> 'f" where
  "averageDelta ops st =
     f_div ops
       (f_of_nsecs ops
          (foldl (\<lambda>t d. s64 (t + d)) 0 (deltas (mHighRefreshRatePeriod st) (mFrameTimes st))))
       (f_of_size ops (length (mFrameTimes st) - 1))"

definition deviates :: "'f float_ops \<Rightarrow> 'f \<Rightarrow> nsecs_t \<Rightarrow> bool" where
  "deviates ops average d =
     f_gt ops (f_abs ops (f_sub ops (f_of_nsecs ops d) average)) (f_mul ops (f_two ops) average)"

text \<open>The samples that are part of a pair of consecutive samples.\<close>

definition pairSamples :: "FrameTimeData list \<Rightarrow> FrameTimeData list" where
  "pairSamples h = (if length h < 2 then [] else h)"

text \<open>
  Concrete values for running the model: exact rational arithmetic in the place of the
  floats (on the runs below every value is a dyadic fraction that a binary float holds
  exactly), and the configuration of the specification's scenario, a history of three.
\<close>

definition exact_ops :: "rat float_ops" where
  "exact_ops =
     \<lparr>f_of_nsecs = of_int, f_of_size = of_nat,
      f_sub = (\<lambda>a b. a - b), f_mul = (\<lambda>a b. a * b), f_div = (\<lambda>a b. a / b),
      f_abs = abs, f_gt = (\<lambda>a b. a > b),
      f_zero = 0, f_two = 2, f_1e9 = 1000000000, MARGIN = 1\<rparr>"

definition scenario_config :: config where
  "scenario_config =
     \<lparr>HISTORY_SIZE = 3, FREQUENT_LAYER_WINDOW_SIZE = 3,
      MAX_FREQUENT_LAYER_PERIOD_NS = 250000000, HISTORY_TIME = 1000000000\<rparr>"

text \<open>
  A second configuration with a history of five, and the layers the concrete runs start
  from or arrive at: a freshly constructed layer with the heuristic vote; three events
  2^24 ns apart; the same with the second event carrying no present time; a single
  event; and four events 2^24 ns apart followed by one 13 * 2^24 ns later.
\<close>

definition wide_config :: config where
  "wide_config =
     \<lparr>HISTORY_SIZE = 5, FREQUENT_LAYER_WINDOW_SIZE = 3,
      MAX_FREQUENT_LAYER_PERIOD_NS = 250000000, HISTORY_TIME = 1000000000\<rparr>"

definition fresh_layer :: "rat LayerInfoV2_state" where
  "fresh_layer = LayerInfoV2 exact_ops 16666667 Heuristic 0 0"

definition steady_layer :: "rat LayerInfoV2_state" where
  "steady_layer =
     recordEvents scenario_config
       [(16777216, 16777216), (33554432, 33554432), (50331648, 50331648)] fresh_layer"

definition unstamped_layer :: "rat LayerInfoV2_state" where
  "unstamped_layer =
     recordEvents scenario_config
       [(16777216, 16777216), (0, 33554432), (50331648, 50331648)] fresh_layer"

definition single_layer :: "rat LayerInfoV2_state" where
  "single_layer = recordEvents scenario_config [(16777216, 16777216)] fresh_layer"

definition bursty_layer :: "rat LayerInfoV2_state" where
  "bursty_layer =
     recordEvents wide_config
       [(16777216, 16777216), (33554432, 33554432), (50331648, 50331648),
        (67108864, 67108864), (285212672, 285212672)] fresh_layer"

text \<open>
  A layer whose high refresh rate period is 2^24 ns and whose present times go back by
  1000 ns from event to event, so that every delta is the floor and not the difference.
\<close>

definition floored_layer :: "rat LayerInfoV2_state" where
  "floored_layer =
     recordEvents scenario_config
       [(3000, 16777216), (2000, 33554432), (1000, 50331648)]
       (LayerInfoV2 exact_ops 16777216 Heuristic 0 0)"

section \<open>The history\<close>

lemma setLastPresentTime_frames:
  "mFrameTimes (setLastPresentTime cfg lpt now st) =
     (if length (mFrameTimes st) < HISTORY_SIZE cfg
      then mFrameTimes st @ [sampleOf (lpt, now)]
      else tl (mFrameTimes st @ [sampleOf (lpt, now)]))"
  by (simp add: setLastPresentTime_def sampleOf_def Let_def)

lemma recordEvents_Nil: "recordEvents cfg [] st = st"
  by (simp add: recordEvents_def)

lemma recordEvents_Cons:
  "recordEvents cfg (c # cs) st = recordEvents cfg cs (setLastPresentTime cfg (fst c) (snd c) st)"
  by (simp add: recordEvents_def split: prod.split)

lemma drop_drop_append:
  "n \<le> length xs \<Longrightarrow> drop m (drop n xs @ ys) = drop (m + n) (xs @ ys)"
proof -
  assume "n \<le> length xs"
  then have "drop n (xs @ ys) = drop n xs @ ys" by simp
  then show ?thesis by (metis drop_drop)
qed

lemma setLastPresentTime_frames_drop:
  assumes "length (mFrameTimes st) \<le> HISTORY_SIZE cfg"
  shows "mFrameTimes (setLastPresentTime cfg lpt now st) =
           drop (length (mFrameTimes st) + 1 - HISTORY_SIZE cfg)
                (mFrameTimes st @ [sampleOf (lpt, now)])"
proof (cases "length (mFrameTimes st) < HISTORY_SIZE cfg")
  case True
  then show ?thesis by (simp add: setLastPresentTime_frames)
next
  case False
  then have eq: "length (mFrameTimes st) + 1 - HISTORY_SIZE cfg = Suc 0" using assms by simp
  have "mFrameTimes (setLastPresentTime cfg lpt now st) =
          tl (mFrameTimes st @ [sampleOf (lpt, now)])"
    using False by (simp add: setLastPresentTime_frames)
  also have "\<dots> = drop (Suc 0) (mFrameTimes st @ [sampleOf (lpt, now)])"
    by (simp only: drop_Suc drop_0)
  finally show ?thesis unfolding eq .
qed

lemma recordEvents_frames:
  "length (mFrameTimes st) \<le> HISTORY_SIZE cfg \<Longrightarrow>
   mFrameTimes (recordEvents cfg calls st) =
     drop (length (mFrameTimes st) + length calls - HISTORY_SIZE cfg)
          (mFrameTimes st @ map sampleOf calls)"
proof (induction calls arbitrary: st)
  case Nil
  then show ?case by (simp add: recordEvents_Nil)
next
  case (Cons c cs)
  let ?st = "setLastPresentTime cfg (fst c) (snd c) st"
  let ?h = "mFrameTimes st"
  let ?k = "length ?h + 1 - HISTORY_SIZE cfg"
  have fr: "mFrameTimes ?st = drop ?k (?h @ [sampleOf c])"
    using setLastPresentTime_frames_drop [OF Cons.prems, of "fst c" "snd c"] by simp
  have k: "?k \<le> length (?h @ [sampleOf c])" by simp
  have len: "length (mFrameTimes ?st) = length ?h + 1 - ?k"
    unfolding fr by simp
  then have le: "length (mFrameTimes ?st) \<le> HISTORY_SIZE cfg"
    using Cons.prems by simp
  have idx: "length (mFrameTimes ?st) + length cs - HISTORY_SIZE cfg + ?k =
             length ?h + length (c # cs) - HISTORY_SIZE cfg"
    unfolding len using Cons.prems by simp
  have "mFrameTimes (recordEvents cfg (c # cs) st) =
        drop (length (mFrameTimes ?st) + length cs - HISTORY_SIZE cfg)
             (mFrameTimes ?st @ map sampleOf cs)"
    using Cons.IH [OF le] by (simp add: recordEvents_Cons)
  also have "\<dots> = drop (length (mFrameTimes ?st) + length cs - HISTORY_SIZE cfg + ?k)
                        ((?h @ [sampleOf c]) @ map sampleOf cs)"
    unfolding fr by (rule drop_drop_append [OF k])
  also have "\<dots> = drop (length ?h + length (c # cs) - HISTORY_SIZE cfg)
                        (?h @ map sampleOf (c # cs))"
    unfolding idx by simp
  finally show ?case .
qed

text \<open>
  Claim C3. Starting from an empty history, after \<open>N\<close> calls of \<open>setLastPresentTime\<close>
  the history holds \<open>min N HISTORY_SIZE\<close> samples: the last that many samples of the
  calls, in the order of the calls. An insertion into a full history drops the oldest
  sample and keeps the others in order, the new sample last.
\<close>

theorem bounded_history_fifo:
  "(mFrameTimes st = [] \<longrightarrow>
      length (mFrameTimes (recordEvents cfg calls st)) = min (length calls) (HISTORY_SIZE cfg) \<and>
      mFrameTimes (recordEvents cfg calls st) =
        drop (length calls - HISTORY_SIZE cfg) (map sampleOf calls)) \<and>
   (length (mFrameTimes st) = HISTORY_SIZE cfg \<longrightarrow>
      mFrameTimes (setLastPresentTime cfg lastPresentTime now st) =
        tl (mFrameTimes st @ [sampleOf (lastPresentTime, now)])) \<and>
   (length (mFrameTimes st) = HISTORY_SIZE cfg \<and> mFrameTimes st \<noteq> [] \<longrightarrow>
      mFrameTimes (setLastPresentTime cfg lastPresentTime now st) =
        tl (mFrameTimes st) @ [sampleOf (lastPresentTime, now)])"
proof (intro conjI impI)
  assume e: "mFrameTimes st = []"
  then have "length (mFrameTimes st) \<le> HISTORY_SIZE cfg" by simp
  from recordEvents_frames [OF this, of calls]
  show fr: "mFrameTimes (recordEvents cfg calls st) =
        drop (length calls - HISTORY_SIZE cfg) (map sampleOf calls)"
    using e by simp
  show "length (mFrameTimes (recordEvents cfg calls st)) = min (length calls) (HISTORY_SIZE cfg)"
    unfolding fr by simp
next
  assume "length (mFrameTimes st) = HISTORY_SIZE cfg"
  then show "mFrameTimes (setLastPresentTime cfg lastPresentTime now st) =
        tl (mFrameTimes st @ [sampleOf (lastPresentTime, now)])"
    by (simp add: setLastPresentTime_frames)
next
  assume "length (mFrameTimes st) = HISTORY_SIZE cfg \<and> mFrameTimes st \<noteq> []"
  then show "mFrameTimes (setLastPresentTime cfg lastPresentTime now st) =
        tl (mFrameTimes st) @ [sampleOf (lastPresentTime, now)]"
    by (simp add: setLastPresentTime_frames)
qed


theorem bounded_history_fifo_witness:
  "length (mFrameTimes (recordEvents scenario_config [(5, 7), (8, 9), (10, 12), (13, 14)]
             (LayerInfoV2 exact_ops 16666667 Heuristic 0 0))) = 3 \<and>
   mFrameTimes (recordEvents scenario_config [(5, 7), (8, 9), (10, 12), (13, 14)]
             (LayerInfoV2 exact_ops 16666667 Heuristic 0 0)) =
     [\<lparr>presetTime = 8, queueTime = 9\<rparr>, \<lparr>presetTime = 10, queueTime = 12\<rparr>,
      \<lparr>presetTime = 13, queueTime = 14\<rparr>] \<and>
   mFrameTimes (setLastPresentTime scenario_config 15 16
      (recordEvents scenario_config [(5, 7), (8, 9), (10, 12), (13, 14)]
             (LayerInfoV2 exact_ops 16666667 Heuristic 0 0))) =
     [\<lparr>presetTime = 10, queueTime = 12\<rparr>, \<lparr>presetTime = 13, queueTime = 14\<rparr>,
      \<lparr>presetTime = 15, queueTime = 16\<rparr>]"
proof -
  let ?init = "LayerInfoV2 exact_ops 16666667 Heuristic 0 0 :: rat LayerInfoV2_state"
  let ?calls = "[(5, 7), (8, 9), (10, 12), (13, 14)] :: (int \<times> int) list"
  let ?st = "recordEvents scenario_config ?calls ?init"
  have e: "mFrameTimes ?init = []" by (simp add: LayerInfoV2_def)
  have d: "drop (length ?calls - HISTORY_SIZE scenario_config) (map sampleOf ?calls) =
             [\<lparr>presetTime = 8, queueTime = 9\<rparr>, \<lparr>presetTime = 10, queueTime = 12\<rparr>,
              \<lparr>presetTime = 13, queueTime = 14\<rparr>]"
    by (simp add: scenario_config_def sampleOf_def)
  have m: "min (length ?calls) (HISTORY_SIZE scenario_config) = 3"
    by (simp add: scenario_config_def)
  have a: "length (mFrameTimes ?st) = 3 \<and>
           mFrameTimes ?st = [\<lparr>presetTime = 8, queueTime = 9\<rparr>,
             \<lparr>presetTime = 10, queueTime = 12\<rparr>, \<lparr>presetTime = 13, queueTime = 14\<rparr>]"
    using bounded_history_fifo [where st = ?init and cfg = scenario_config and calls = ?calls] e
    unfolding d m by blast
  then have f: "length (mFrameTimes ?st) = HISTORY_SIZE scenario_config \<and> mFrameTimes ?st \<noteq> []"
    by (simp add: scenario_config_def)
  have "mFrameTimes (setLastPresentTime scenario_config 15 16 ?st) =
          tl (mFrameTimes ?st) @ [sampleOf (15, 16)]"
    using bounded_history_fifo [where st = ?st and cfg = scenario_config] f by blast
  then show ?thesis using a by (simp add: sampleOf_def)
qed

lemma queueTime_sampleOf_le:
  assumes "snd a \<le> snd b"
  shows "queueTime (sampleOf a) \<le> queueTime (sampleOf b) \<longleftrightarrow>
         fst a \<le> max (max (fst b) (snd b)) 0"
  using assms by (auto simp add: sampleOf_def)

text \<open>
  Claim C2, as amended. Starting from an empty history, for every sequence of calls
  \<open>setLastPresentTime(lastPresentTime, now)\<close> whose \<open>now\<close> values are non-decreasing, the
  \<open>queueTime\<close> fields of the history, oldest to newest, are non-decreasing exactly when,
  for every two consecutive calls whose samples are both still in the history, the
  \<open>lastPresentTime\<close> of the earlier call is at most the largest of the \<open>lastPresentTime\<close>
  of the later call, the \<open>now\<close> of the later call, and 0.
\<close>

theorem queueTime_monotonic:
  assumes "mFrameTimes st = []"
      and "sorted (map snd calls)"
  shows "sorted (map queueTime (mFrameTimes (recordEvents cfg calls st))) \<longleftrightarrow>
         (\<forall>i. Suc i < length (storedCalls cfg calls) \<longrightarrow>
              fst (storedCalls cfg calls ! i) \<le>
                max (max (fst (storedCalls cfg calls ! Suc i))
                         (snd (storedCalls cfg calls ! Suc i))) 0)"
proof -
  let ?cs = "storedCalls cfg calls"
  have "length (mFrameTimes st) \<le> HISTORY_SIZE cfg" using assms(1) by simp
  from recordEvents_frames [OF this, of calls]
  have fr: "mFrameTimes (recordEvents cfg calls st) = map sampleOf ?cs"
    using assms(1) by (simp add: storedCalls_def drop_map)
  have "sorted (drop (length calls - HISTORY_SIZE cfg) (map snd calls))"
    using assms(2) by (rule sorted_wrt_drop)
  then have nows: "sorted (map snd ?cs)" by (simp add: storedCalls_def drop_map)
  have step: "queueTime (sampleOf (?cs ! i)) \<le> queueTime (sampleOf (?cs ! Suc i)) \<longleftrightarrow>
              fst (?cs ! i) \<le> max (max (fst (?cs ! Suc i)) (snd (?cs ! Suc i))) 0"
    if i: "Suc i < length ?cs" for i
  proof -
    have "map snd ?cs ! i \<le> map snd ?cs ! Suc i"
      using nows i by (simp add: sorted_iff_nth_Suc)
    then have "snd (?cs ! i) \<le> snd (?cs ! Suc i)" using i by simp
    then show ?thesis by (rule queueTime_sampleOf_le)
  qed
  have "sorted (map queueTime (map sampleOf ?cs)) \<longleftrightarrow>
        (\<forall>i. Suc i < length ?cs \<longrightarrow>
             queueTime (sampleOf (?cs ! i)) \<le> queueTime (sampleOf (?cs ! Suc i)))"
    by (simp add: sorted_iff_nth_Suc)
  also have "\<dots> \<longleftrightarrow> (\<forall>i. Suc i < length ?cs \<longrightarrow>
             fst (?cs ! i) \<le> max (max (fst (?cs ! Suc i)) (snd (?cs ! Suc i))) 0)"
    using step by blast
  finally show ?thesis unfolding fr .
qed

theorem queueTime_monotonic_witness:
  "sorted (map queueTime (mFrameTimes (recordEvents scenario_config
      [(100, 10), (20, 11), (5, 30), (200, 31)] (LayerInfoV2 exact_ops 16666667 Heuristic 0 0)))) \<and>
   map queueTime (mFrameTimes (recordEvents scenario_config
      [(100, 10), (20, 11), (5, 30), (200, 31)] (LayerInfoV2 exact_ops 16666667 Heuristic 0 0))) =
     [20, 30, 200]"
proof -
  let ?init = "LayerInfoV2 exact_ops 16666667 Heuristic 0 0 :: rat LayerInfoV2_state"
  let ?calls = "[(100, 10), (20, 11), (5, 30), (200, 31)] :: (int \<times> int) list"
  have e: "mFrameTimes ?init = []" by (simp add: LayerInfoV2_def)
  have n: "sorted (map snd ?calls)" by simp
  have s: "storedCalls scenario_config ?calls = [(20, 11), (5, 30), (200, 31)]"
    by (simp add: storedCalls_def scenario_config_def)
  have c: "\<forall>i. Suc i < length (storedCalls scenario_config ?calls) \<longrightarrow>
              fst (storedCalls scenario_config ?calls ! i) \<le>
                max (max (fst (storedCalls scenario_config ?calls ! Suc i))
                         (snd (storedCalls scenario_config ?calls ! Suc i))) 0"
    unfolding s by (auto simp add: less_Suc_eq)
  have "sorted (map queueTime (mFrameTimes (recordEvents scenario_config ?calls ?init)))"
    using queueTime_monotonic [OF e n, of scenario_config] c by blast
  moreover have "map queueTime (mFrameTimes (recordEvents scenario_config ?calls ?init)) =
     [20, 30, 200]"
    by (simp add: recordEvents_def setLastPresentTime_def LayerInfoV2_def scenario_config_def
        Let_def)
  ultimately show ?thesis by simp
qed

text \<open>
  With arbitrary present times the sequence is not monotonic: a present time of 100 at
  \<open>now = 10\<close> is queued at 100, and the next event, presented at 20 at \<open>now = 11\<close>, is
  queued at 20.
\<close>

theorem queueTime_monotonic_counterexample:
  "sorted (map snd [(100, 10), (20, 11::int)] :: int list) \<and>
   map queueTime (mFrameTimes (recordEvents scenario_config [(100, 10), (20, 11)]
      (LayerInfoV2 exact_ops 16666667 Heuristic 0 0))) = [100, 20] \<and>
   \<not> sorted (map queueTime (mFrameTimes (recordEvents scenario_config [(100, 10), (20, 11)]
      (LayerInfoV2 exact_ops 16666667 Heuristic 0 0))))"
  by (simp add: recordEvents_def setLastPresentTime_def LayerInfoV2_def scenario_config_def
      Let_def)

section \<open>The estimator\<close>

lemma deltas_simps:
  "deltas p [] = []" "deltas p [a] = []"
  "deltas p (a # b # rest) = max (s64 (presetTime b - presetTime a)) p # deltas p (b # rest)"
  by (simp_all add: deltas_def)

lemma s64_in_range:
  "- 9223372036854775808 \<le> x \<Longrightarrow> x < 9223372036854775808 \<Longrightarrow> s64 x = x"
  by (simp add: s64_def)

lemma deltas_in_range:
  "\<forall>s \<in> set h. 0 \<le> presetTime s \<and> presetTime s < 9223372036854775808 \<Longrightarrow>
   deltas p h = map (\<lambda>(a, b). max (presetTime b - presetTime a) p) (zip h (tl h))"
proof (induction h rule: induct_list012)
  case (3 a b rest)
  then have "s64 (presetTime b - presetTime a) = presetTime b - presetTime a"
    by (intro s64_in_range) simp_all
  then show ?case using 3 by (simp add: deltas_simps)
qed (simp_all add: deltas_simps)

lemma sumLoop_sentinel:
  "2 \<le> length h \<Longrightarrow> \<exists>s \<in> set h. presetTime s = 0 \<Longrightarrow> sumLoop p h t = Inr None"
proof (induction p h t rule: sumLoop.induct)
  case (3 period a b rest t)
  show ?case
  proof (cases "presetTime a = 0 \<or> presetTime b = 0")
    case True
    then show ?thesis by simp
  next
    case False
    with "3.prems"(2) obtain s where s: "s \<in> set rest" "presetTime s = 0" by auto
    then have "2 \<le> length (b # rest)" by (cases rest) auto
    moreover have "\<exists>s \<in> set (b # rest). presetTime s = 0" using s by auto
    ultimately show ?thesis using False "3.IH" by simp
  qed
qed simp_all

lemma sumLoop_total:
  "h \<noteq> [] \<Longrightarrow> \<forall>s \<in> set (pairSamples h). presetTime s \<noteq> 0 \<Longrightarrow>
   sumLoop p h t = Inr (Some (foldl (\<lambda>t d. s64 (t + d)) t (deltas p h)))"
proof (induction p h t rule: sumLoop.induct)
  case (3 period a b rest t)
  from "3.prems"(2) have nz: "presetTime a \<noteq> 0" "presetTime b \<noteq> 0"
      "\<forall>s \<in> set rest. presetTime s \<noteq> 0"
    by (simp_all add: pairSamples_def)
  then have "\<forall>s \<in> set (pairSamples (b # rest)). presetTime s \<noteq> 0"
    by (simp add: pairSamples_def)
  then show ?case using nz "3.IH" by (simp add: deltas_simps presentTimeDelta_def)
qed (simp_all add: deltas_simps)

lemma burstLoop_deviates:
  "h \<noteq> [] \<Longrightarrow>
   burstLoop ops p average h = Inr (\<not> (\<exists>d \<in> set (deltas p h). deviates ops average d))"
proof (induction ops p average h rule: burstLoop.induct)
  case (3 ops period average a b rest)
  then show ?case by (simp add: deltas_simps deviates_def presentTimeDelta_def Let_def)
qed (simp_all add: deltas_simps)

lemma hasEnough_nonempty:
  "0 < HISTORY_SIZE cfg \<Longrightarrow> hasEnoughDataForHeuristic cfg st = Inr b \<Longrightarrow> mFrameTimes st \<noteq> []"
  by (auto simp add: hasEnoughDataForHeuristic_def deque_back_def)

lemma hasEnough_two:
  assumes "mFrameTimes st \<noteq> []" "hasEnoughDataForHeuristic cfg st = Inr True"
      "2 \<le> HISTORY_SIZE cfg" "0 < HISTORY_TIME cfg"
  shows "2 \<le> length (mFrameTimes st)"
proof (rule ccontr)
  assume n: "\<not> 2 \<le> length (mFrameTimes st)"
  have "length (mFrameTimes st) \<noteq> 0" using assms(1) by simp
  with n have "length (mFrameTimes st) = Suc 0" by arith
  then obtain x where x: "mFrameTimes st = [x]"
    by (auto simp add: length_Suc_conv)
  then have "hasEnoughDataForHeuristic cfg st = Inr False"
    using assms(3,4)
    by (simp add: hasEnoughDataForHeuristic_def deque_back_def deque_front_def s64_def)
  with assms(2) show False by simp
qed

lemma average_eq:
  "averageFrameTime ops st
     (foldl (\<lambda>t d. s64 (t + d)) 0 (deltas (mHighRefreshRatePeriod st) (mFrameTimes st)))
   = averageDelta ops st"
  by (simp add: averageFrameTime_def averageDelta_def)

text \<open>
  Claim C7. When \<open>hasEnoughDataForHeuristic\<close> holds and a sample that is part of a pair
  of consecutive samples has the present time 0, \<open>calculateRefreshRateIfPossible\<close>
  returns \<open>nullopt\<close> (and leaves the state as it was).
\<close>

theorem sentinel_none:
  assumes "hasEnoughDataForHeuristic cfg st = Inr True"
      and "\<exists>s \<in> set (pairSamples (mFrameTimes st)). presetTime s = 0"
  shows "calculateRefreshRateIfPossible ops cfg st = Inr (None, st)"
proof -
  from assms(2) have "2 \<le> length (mFrameTimes st)"
      "\<exists>s \<in> set (mFrameTimes st). presetTime s = 0"
    by (auto simp add: pairSamples_def split: if_splits)
  then have "sumLoop (mHighRefreshRatePeriod st) (mFrameTimes st) 0 = Inr None"
    by (rule sumLoop_sentinel)
  then show ?thesis using assms(1) by (simp add: calculateRefreshRateIfPossible_def)
qed

lemma reportRate_Some: "\<exists>v. fst (reportRate ops average st) = Some v"
  by (simp add: reportRate_def Let_def)

text \<open>
  Claim C6. When \<open>hasEnoughDataForHeuristic\<close> holds and no sample of a consecutive pair
  has the present time 0: if some delta \<open>d\<close> deviates from the average delta by more than
  twice the average, \<open>calculateRefreshRateIfPossible\<close> returns \<open>nullopt\<close>; if none does,
  it returns a value, the rate after the hysteresis. The deltas, their average and the
  test are the definitions \<open>deltas\<close>, \<open>averageDelta\<close> and \<open>deviates\<close>, which follow the
  words of the specification (\<open>deltas\<close> writes out the difference and the floor
  \<open>highRefreshRatePeriod\<close> itself); the arithmetic is the arithmetic of the code. The history
  size is positive, so that a history that has enough data is not empty.
\<close>

theorem burst_rejection:
  assumes "0 < HISTORY_SIZE cfg"
      and "hasEnoughDataForHeuristic cfg st = Inr True"
      and "\<forall>s \<in> set (pairSamples (mFrameTimes st)). presetTime s \<noteq> 0"
  shows "((\<exists>d \<in> set (deltas (mHighRefreshRatePeriod st) (mFrameTimes st)).
             deviates ops (averageDelta ops st) d) \<longrightarrow>
          calculateRefreshRateIfPossible ops cfg st = Inr (None, st)) \<and>
         (\<not> (\<exists>d \<in> set (deltas (mHighRefreshRatePeriod st) (mFrameTimes st)).
             deviates ops (averageDelta ops st) d) \<longrightarrow>
          calculateRefreshRateIfPossible ops cfg st =
            Inr (reportRate ops (averageDelta ops st) st) \<and>
          (\<exists>v. fst (reportRate ops (averageDelta ops st) st) = Some v))"
proof -
  let ?p = "mHighRefreshRatePeriod st"
  let ?h = "mFrameTimes st"
  let ?bad = "\<exists>d \<in> set (deltas ?p ?h). deviates ops (averageDelta ops st) d"
  have ne: "?h \<noteq> []" using assms(1,2) by (rule hasEnough_nonempty)
  have sum: "sumLoop ?p ?h 0 = Inr (Some (foldl (\<lambda>t d. s64 (t + d)) 0 (deltas ?p ?h)))"
    using ne assms(3) by (rule sumLoop_total)
  have burst: "burstLoop ops ?p (averageDelta ops st) ?h = Inr (\<not> ?bad)"
    using ne by (rule burstLoop_deviates)
  show ?thesis
  proof (cases ?bad)
    case True
    then have "burstLoop ops ?p (averageDelta ops st) ?h = Inr False"
      using burst by simp
    then have "calculateRefreshRateIfPossible ops cfg st = Inr (None, st)"
      using assms(2) sum by (simp add: calculateRefreshRateIfPossible_def average_eq)
    then show ?thesis using True by simp
  next
    case False
    then have "burstLoop ops ?p (averageDelta ops st) ?h = Inr True"
      using burst by simp
    then have "calculateRefreshRateIfPossible ops cfg st =
                 Inr (reportRate ops (averageDelta ops st) st)"
      using assms(2) sum by (simp add: calculateRefreshRateIfPossible_def average_eq)
    then show ?thesis using False reportRate_Some [of ops "averageDelta ops st" st] by simp
  qed
qed


lemma sumLoop_in_bounds: "h \<noteq> [] \<Longrightarrow> sumLoop p h t \<noteq> Inl e"
  by (induction p h t rule: sumLoop.induct) simp_all

lemma burstLoop_in_bounds: "h \<noteq> [] \<Longrightarrow> burstLoop ops p average h \<noteq> Inl e"
  by (induction ops p average h rule: burstLoop.induct) (simp_all add: Let_def)

text \<open>
  Claim C10. With \<open>HISTORY_SIZE \<ge> 2\<close> and \<open>HISTORY_TIME > 0\<close>, a non-empty history on
  which \<open>hasEnoughDataForHeuristic\<close> returns true has at least two samples; so the
  divisor \<open>size() - 1\<close> is at least 1, there is at least one pair of consecutive samples,
  and neither loop leaves the deque.
\<close>

theorem enough_data_two_samples:
  assumes "mFrameTimes st \<noteq> []"
      and "hasEnoughDataForHeuristic cfg st = Inr True"
      and "2 \<le> HISTORY_SIZE cfg"
      and "0 < HISTORY_TIME cfg"
  shows "2 \<le> length (mFrameTimes st) \<and>
         1 \<le> length (mFrameTimes st) - 1 \<and>
         deltas (mHighRefreshRatePeriod st) (mFrameTimes st) \<noteq> [] \<and>
         sumLoop (mHighRefreshRatePeriod st) (mFrameTimes st) 0 \<noteq> Inl OutOfBounds \<and>
         burstLoop ops (mHighRefreshRatePeriod st) average (mFrameTimes st) \<noteq> Inl OutOfBounds"
proof -
  have two: "2 \<le> length (mFrameTimes st)" using assms by (rule hasEnough_two)
  then obtain a b rest where h: "mFrameTimes st = a # b # rest"
    by (cases "mFrameTimes st"; cases "tl (mFrameTimes st)") auto
  have "deltas (mHighRefreshRatePeriod st) (mFrameTimes st) \<noteq> []"
    unfolding h by (simp add: deltas_simps)
  moreover have "1 \<le> length (mFrameTimes st) - 1" using two by arith
  moreover note two
    sumLoop_in_bounds [OF assms(1), of "mHighRefreshRatePeriod st" 0 OutOfBounds]
    burstLoop_in_bounds [OF assms(1), of ops "mHighRefreshRatePeriod st" average OutOfBounds]
  ultimately show ?thesis by blast
qed

section \<open>The vote and the hysteresis\<close>

text \<open>
  Claim C1. \<open>getRefreshRate\<close> returns the stored vote when its type is not Heuristic;
  otherwise \<open>{Min, 0}\<close> when \<open>isFrequent\<close> is false; otherwise \<open>{Heuristic, v}\<close> when
  \<open>calculateRefreshRateIfPossible\<close> returns the value \<open>v\<close>, and \<open>{Max, 0}\<close> when it returns
  \<open>nullopt\<close>.
\<close>

theorem getRefreshRate_cases:
  "(vote_type (mLayerVote st) \<noteq> Heuristic \<longrightarrow>
      getRefreshRate ops cfg st now =
        Inr ((vote_type (mLayerVote st), fps (mLayerVote st)), st)) \<and>
   (vote_type (mLayerVote st) = Heuristic \<and> isFrequent cfg st now = Inr False \<longrightarrow>
      getRefreshRate ops cfg st now = Inr ((Min_vote, f_zero ops), st)) \<and>
   (vote_type (mLayerVote st) = Heuristic \<and> isFrequent cfg st now = Inr True \<and>
    calculateRefreshRateIfPossible ops cfg st = Inr (Some v, st') \<longrightarrow>
      getRefreshRate ops cfg st now = Inr ((Heuristic, v), st')) \<and>
   (vote_type (mLayerVote st) = Heuristic \<and> isFrequent cfg st now = Inr True \<and>
    calculateRefreshRateIfPossible ops cfg st = Inr (None, st') \<longrightarrow>
      getRefreshRate ops cfg st now = Inr ((Max_vote, f_zero ops), st'))"
  by (simp add: getRefreshRate_def)

lemma reportRate_frame:
  "reportRate ops average st = (r, st') \<Longrightarrow>
   st' = st\<lparr>mLastReportedRefreshRate := mLastReportedRefreshRate st'\<rparr> \<and> r \<noteq> None"
  by (auto simp add: reportRate_def Let_def)

lemma calculate_frame:
  assumes "calculateRefreshRateIfPossible ops cfg st = Inr (r, st')"
  shows "st' = st\<lparr>mLastReportedRefreshRate := mLastReportedRefreshRate st'\<rparr> \<and>
         (r = None \<longrightarrow> st' = st)"
  using assms reportRate_frame [of ops _ st r st']
  by (auto simp add: calculateRefreshRateIfPossible_def Let_def
      split: sum.splits bool.splits option.splits)

text \<open>
  Claim C8. \<open>getRefreshRate\<close> changes no member but \<open>mLastReportedRefreshRate\<close>: the
  history and the stored vote are as before. When \<open>calculateRefreshRateIfPossible\<close>
  returns \<open>nullopt\<close>, the state is as before altogether.
\<close>

theorem getRefreshRate_frame:
  "(getRefreshRate ops cfg st now = Inr (vote, st') \<longrightarrow>
      mFrameTimes st' = mFrameTimes st \<and> mLayerVote st' = mLayerVote st \<and>
      st' = st\<lparr>mLastReportedRefreshRate := mLastReportedRefreshRate st'\<rparr>) \<and>
   (calculateRefreshRateIfPossible ops cfg st = Inr (None, st'') \<longrightarrow> st'' = st)"
proof -
  have "st' = st\<lparr>mLastReportedRefreshRate := mLastReportedRefreshRate st'\<rparr>"
    if g: "getRefreshRate ops cfg st now = Inr (vote, st')"
    using g calculate_frame [of ops cfg st _ st']
    by (auto simp add: getRefreshRate_def split: if_splits sum.splits bool.splits option.splits)
  moreover have "mFrameTimes st' = mFrameTimes st \<and> mLayerVote st' = mLayerVote st"
    if e: "st' = st\<lparr>mLastReportedRefreshRate := mLastReportedRefreshRate st'\<rparr>"
  proof -
    have "mFrameTimes (st\<lparr>mLastReportedRefreshRate := mLastReportedRefreshRate st'\<rparr>) =
            mFrameTimes st \<and>
          mLayerVote (st\<lparr>mLastReportedRefreshRate := mLastReportedRefreshRate st'\<rparr>) =
            mLayerVote st"
      by simp
    then show ?thesis using e by simp
  qed
  moreover have "st'' = st"
    if "calculateRefreshRateIfPossible ops cfg st = Inr (None, st'')"
    using that calculate_frame by blast
  ultimately show ?thesis by blast
qed


text \<open>
  Claim C4. When the enough-data check, the first loop and the second loop pass, with
  \<open>candidateRate = 1e9f / averageFrameTime\<close>, the function returns a value, changes no
  member but \<open>mLastReportedRefreshRate\<close>, sets that member to the candidate when
  \<open>|candidateRate - mLastReportedRefreshRate| > MARGIN\<close> and leaves it otherwise, and
  returns the member's value after that step.
\<close>

theorem hysteresis_update:
  assumes "hasEnoughDataForHeuristic cfg st = Inr True"
      and "sumLoop (mHighRefreshRatePeriod st) (mFrameTimes st) 0 = Inr (Some tot)"
      and "burstLoop ops (mHighRefreshRatePeriod st) (averageFrameTime ops st tot)
             (mFrameTimes st) = Inr True"
      and "candidateRate = refreshRate ops (averageFrameTime ops st tot)"
  shows "\<exists>st'. calculateRefreshRateIfPossible ops cfg st =
                  Inr (Some (mLastReportedRefreshRate st'), st') \<and>
               st' = st\<lparr>mLastReportedRefreshRate := mLastReportedRefreshRate st'\<rparr> \<and>
               (f_gt ops (f_abs ops (f_sub ops candidateRate (mLastReportedRefreshRate st)))
                         (MARGIN ops) \<longrightarrow>
                  mLastReportedRefreshRate st' = candidateRate) \<and>
               (\<not> f_gt ops (f_abs ops (f_sub ops candidateRate (mLastReportedRefreshRate st)))
                           (MARGIN ops) \<longrightarrow>
                  mLastReportedRefreshRate st' = mLastReportedRefreshRate st)"
proof -
  have c: "calculateRefreshRateIfPossible ops cfg st =
             Inr (reportRate ops (averageFrameTime ops st tot) st)"
    using assms(1-3) by (simp add: calculateRefreshRateIfPossible_def)
  show ?thesis
  proof (cases "f_gt ops (f_abs ops (f_sub ops candidateRate (mLastReportedRefreshRate st)))
                  (MARGIN ops)")
    case True
    then have "reportRate ops (averageFrameTime ops st tot) st =
                 (Some candidateRate, st\<lparr>mLastReportedRefreshRate := candidateRate\<rparr>)"
      using assms(4) by (simp add: reportRate_def Let_def)
    then show ?thesis using c True
      by (intro exI [of _ "st\<lparr>mLastReportedRefreshRate := candidateRate\<rparr>"]) simp
  next
    case False
    then have "reportRate ops (averageFrameTime ops st tot) st =
                 (Some (mLastReportedRefreshRate st), st)"
      using assms(4) by (simp add: reportRate_def Let_def)
    then show ?thesis using c False
      by (intro exI [of _ st]) simp
  qed
qed

lemma calculate_mono_state:
  assumes "mFrameTimes st2 = mFrameTimes st1"
      and "mHighRefreshRatePeriod st2 = mHighRefreshRatePeriod st1"
      and "hasEnoughDataForHeuristic cfg st1 = Inr True"
      and "sumLoop (mHighRefreshRatePeriod st1) (mFrameTimes st1) 0 = Inr (Some tot)"
      and "burstLoop ops (mHighRefreshRatePeriod st1) (averageFrameTime ops st1 tot)
             (mFrameTimes st1) = Inr True"
  shows "calculateRefreshRateIfPossible ops cfg st2 =
           Inr (reportRate ops (averageFrameTime ops st1 tot) st2)"
proof -
  have "hasEnoughDataForHeuristic cfg st2 = hasEnoughDataForHeuristic cfg st1"
    by (simp only: hasEnoughDataForHeuristic_def assms(1))
  then have "hasEnoughDataForHeuristic cfg st2 = Inr True"
    using assms(3) by simp
  moreover have "averageFrameTime ops st2 tot = averageFrameTime ops st1 tot"
    using assms(1) by (simp add: averageFrameTime_def)
  ultimately show ?thesis
    using assms(1,2,4,5) by (simp add: calculateRefreshRateIfPossible_def)
qed

lemma calculate_Some_checks:
  assumes "calculateRefreshRateIfPossible ops cfg st = Inr (Some v, st1)"
  shows "hasEnoughDataForHeuristic cfg st = Inr True \<and>
         (\<exists>tot. sumLoop (mHighRefreshRatePeriod st) (mFrameTimes st) 0 = Inr (Some tot) \<and>
            burstLoop ops (mHighRefreshRatePeriod st) (averageFrameTime ops st tot)
              (mFrameTimes st) = Inr True \<and>
            reportRate ops (averageFrameTime ops st tot) st = (Some v, st1))"
  using assms
  by (auto simp add: calculateRefreshRateIfPossible_def Let_def
      split: sum.splits bool.splits option.splits)

text \<open>
  Claim C5. If a call of \<open>calculateRefreshRateIfPossible\<close> returns the value \<open>v\<close> and
  the candidate rate of the history is within \<open>MARGIN\<close> of \<open>v\<close>, then a second call, on a
  state with the same history and the reported rate the first call left, returns \<open>v\<close>
  again and changes nothing.
\<close>

theorem hysteresis_idempotent:
  assumes "calculateRefreshRateIfPossible ops cfg st = Inr (Some v, st1)"
      and "sumLoop (mHighRefreshRatePeriod st) (mFrameTimes st) 0 = Inr (Some tot)"
      and "candidateRate = refreshRate ops (averageFrameTime ops st tot)"
      and "\<not> f_gt ops (f_abs ops (f_sub ops candidateRate v)) (MARGIN ops)"
      and "mFrameTimes st2 = mFrameTimes st1"
      and "mHighRefreshRatePeriod st2 = mHighRefreshRatePeriod st1"
      and "mLastReportedRefreshRate st2 = mLastReportedRefreshRate st1"
  shows "calculateRefreshRateIfPossible ops cfg st2 = Inr (Some v, st2)"
proof -
  from calculate_Some_checks [OF assms(1)] assms(2)
  have enough: "hasEnoughDataForHeuristic cfg st = Inr True"
    and burst: "burstLoop ops (mHighRefreshRatePeriod st) (averageFrameTime ops st tot)
              (mFrameTimes st) = Inr True"
    and rep: "reportRate ops (averageFrameTime ops st tot) st = (Some v, st1)"
    by auto
  from reportRate_frame [OF rep]
  have fr: "st1 = st\<lparr>mLastReportedRefreshRate := mLastReportedRefreshRate st1\<rparr>" by simp
  have v: "v = mLastReportedRefreshRate st1"
    using rep by (auto simp add: reportRate_def Let_def split: if_splits)
  have h2: "mFrameTimes st2 = mFrameTimes st"
    using assms(5) fr by (metis LayerInfoV2_state.select_convs(5) LayerInfoV2_state.surjective
        LayerInfoV2_state.update_convs(6))
  have p2: "mHighRefreshRatePeriod st2 = mHighRefreshRatePeriod st"
    using assms(6) fr by (metis LayerInfoV2_state.select_convs(1) LayerInfoV2_state.surjective
        LayerInfoV2_state.update_convs(6))
  have "calculateRefreshRateIfPossible ops cfg st2 =
          Inr (reportRate ops (averageFrameTime ops st tot) st2)"
    using h2 p2 enough assms(2) burst by (rule calculate_mono_state)
  moreover have "reportRate ops (averageFrameTime ops st tot) st2 = (Some v, st2)"
    using assms(3,4,7) v by (simp add: reportRate_def Let_def)
  ultimately show ?thesis by simp
qed

lemma isRecentlyActive_in_bounds: "\<exists>b. isRecentlyActive threshold st now = Inr b"
  by (auto simp add: isRecentlyActive_def deque_back_def)

text \<open>
  Claim C9, at the input where the code leaves the deque. On a freshly constructed layer
  with the heuristic vote the history is empty: \<open>isFrequent\<close> returns true, and
  \<open>hasEnoughDataForHeuristic\<close> calls \<open>back()\<close> and \<open>front()\<close> on the empty deque.
  (\<open>isRecentlyActive\<close> tests \<open>empty()\<close> first, and on a non-empty history every access of
  \<open>getRefreshRate\<close> is in bounds: the two lemmas around the theorem.)
\<close>

theorem getRefreshRate_empty_history:
  assumes "0 < FREQUENT_LAYER_WINDOW_SIZE cfg"
      and "0 < HISTORY_SIZE cfg"
  shows "isFrequent cfg (LayerInfoV2 ops period Heuristic lastUpdated0 lastRate0) now = Inr True \<and>
         hasEnoughDataForHeuristic cfg (LayerInfoV2 ops period Heuristic lastUpdated0 lastRate0) =
           Inl OutOfBounds \<and>
         getRefreshRate ops cfg (LayerInfoV2 ops period Heuristic lastUpdated0 lastRate0) now =
           Inl OutOfBounds"
  using assms
  by (simp add: getRefreshRate_def isFrequent_def calculateRefreshRateIfPossible_def
      hasEnoughDataForHeuristic_def deque_back_def LayerInfoV2_def)

lemma getRefreshRate_in_bounds_nonempty:
  assumes "mFrameTimes st \<noteq> []"
      and "0 < FREQUENT_LAYER_WINDOW_SIZE cfg"
  shows "\<exists>r. getRefreshRate ops cfg st now = Inr r"
proof -
  have f: "\<exists>b. isFrequent cfg st now = Inr b"
    using assms by (auto simp add: isFrequent_def deque_at_def Let_def)
  have e: "\<exists>b. hasEnoughDataForHeuristic cfg st = Inr b"
    using assms(1)
    by (cases "mFrameTimes st")
      (auto simp add: hasEnoughDataForHeuristic_def deque_back_def deque_front_def)
  have "\<exists>r. calculateRefreshRateIfPossible ops cfg st = Inr r"
    using e sumLoop_in_bounds [OF assms(1)] burstLoop_in_bounds [OF assms(1), of ops]
    by (auto simp add: calculateRefreshRateIfPossible_def Let_def
        split: sum.splits bool.splits option.splits)
  then show ?thesis using f
    by (auto simp add: getRefreshRate_def split: sum.splits bool.splits option.splits)
qed

section \<open>Concrete runs\<close>

lemmas run_defs = recordEvents_def setLastPresentTime_def LayerInfoV2_def Let_def
  scenario_config_def wide_config_def exact_ops_def fresh_layer_def

lemma steady_layer_eq:
  "steady_layer =
     \<lparr>mHighRefreshRatePeriod = 16666667, mDefaultVote = Heuristic,
      mLayerVote = \<lparr>vote_type = Heuristic, fps = 0\<rparr>, mLastUpdatedTime = 50331648,
      mFrameTimes = [\<lparr>presetTime = 16777216, queueTime = 16777216\<rparr>,
                     \<lparr>presetTime = 33554432, queueTime = 33554432\<rparr>,
                     \<lparr>presetTime = 50331648, queueTime = 50331648\<rparr>],
      mLastReportedRefreshRate = 0\<rparr>"
  by (simp add: steady_layer_def run_defs)

lemma unstamped_layer_eq:
  "unstamped_layer =
     \<lparr>mHighRefreshRatePeriod = 16666667, mDefaultVote = Heuristic,
      mLayerVote = \<lparr>vote_type = Heuristic, fps = 0\<rparr>, mLastUpdatedTime = 50331648,
      mFrameTimes = [\<lparr>presetTime = 16777216, queueTime = 16777216\<rparr>,
                     \<lparr>presetTime = 0, queueTime = 33554432\<rparr>,
                     \<lparr>presetTime = 50331648, queueTime = 50331648\<rparr>],
      mLastReportedRefreshRate = 0\<rparr>"
  by (simp add: unstamped_layer_def run_defs)

lemma single_layer_eq:
  "single_layer =
     \<lparr>mHighRefreshRatePeriod = 16666667, mDefaultVote = Heuristic,
      mLayerVote = \<lparr>vote_type = Heuristic, fps = 0\<rparr>, mLastUpdatedTime = 16777216,
      mFrameTimes = [\<lparr>presetTime = 16777216, queueTime = 16777216\<rparr>],
      mLastReportedRefreshRate = 0\<rparr>"
  by (simp add: single_layer_def run_defs)

lemma bursty_layer_eq:
  "bursty_layer =
     \<lparr>mHighRefreshRatePeriod = 16666667, mDefaultVote = Heuristic,
      mLayerVote = \<lparr>vote_type = Heuristic, fps = 0\<rparr>, mLastUpdatedTime = 285212672,
      mFrameTimes = [\<lparr>presetTime = 16777216, queueTime = 16777216\<rparr>,
                     \<lparr>presetTime = 33554432, queueTime = 33554432\<rparr>,
                     \<lparr>presetTime = 50331648, queueTime = 50331648\<rparr>,
                     \<lparr>presetTime = 67108864, queueTime = 67108864\<rparr>,
                     \<lparr>presetTime = 285212672, queueTime = 285212672\<rparr>],
      mLastReportedRefreshRate = 0\<rparr>"
  by (simp add: bursty_layer_def run_defs)

lemmas eval_defs = hasEnoughDataForHeuristic_def deque_back_def deque_front_def deque_at_def
  s64_def presentTimeDelta_def averageFrameTime_def refreshRate_def isFrequent_def
  scenario_config_def wide_config_def exact_ops_def pairSamples_def deltas_def averageDelta_def
  deviates_def

lemma steady_enough: "hasEnoughDataForHeuristic scenario_config steady_layer = Inr True"
  by (simp add: steady_layer_eq eval_defs)

lemma steady_sum:
  "sumLoop (mHighRefreshRatePeriod steady_layer) (mFrameTimes steady_layer) 0 = Inr (Some 33554432)"
  by (simp add: steady_layer_eq eval_defs)

lemma steady_average: "averageFrameTime exact_ops steady_layer 33554432 = 16777216"
  by (simp add: steady_layer_eq eval_defs)

lemma steady_burst:
  "burstLoop exact_ops (mHighRefreshRatePeriod steady_layer) 16777216 (mFrameTimes steady_layer)
     = Inr True"
  by (simp add: steady_layer_eq eval_defs)

lemma steady_rate: "refreshRate exact_ops 16777216 = 1953125 / 32768"
  by (simp add: eval_defs)

lemma steady_calculate:
  "calculateRefreshRateIfPossible exact_ops scenario_config steady_layer =
     Inr (Some (1953125 / 32768), steady_layer\<lparr>mLastReportedRefreshRate := 1953125 / 32768\<rparr>)"
  by (simp add: calculateRefreshRateIfPossible_def steady_enough steady_sum steady_average
      steady_burst reportRate_def steady_rate Let_def)
    (simp add: steady_layer_eq exact_ops_def)


lemma steady_frequent: "isFrequent scenario_config steady_layer 50331648 = Inr True"
  by (simp add: steady_layer_eq eval_defs)

lemma steady_infrequent: "isFrequent scenario_config steady_layer 1000000000 = Inr False"
  by (simp add: steady_layer_eq eval_defs)

lemma single_frequent: "isFrequent scenario_config single_layer 16777216 = Inr True"
  by (simp add: single_layer_eq eval_defs)

lemma single_calculate:
  "calculateRefreshRateIfPossible exact_ops scenario_config single_layer = Inr (None, single_layer)"
  by (simp add: calculateRefreshRateIfPossible_def single_layer_eq eval_defs)

theorem getRefreshRate_cases_witness:
  "getRefreshRate exact_ops scenario_config (LayerInfoV2 exact_ops 16666667 Max_vote 0 0) 50331648 =
     Inr ((Max_vote, 0), LayerInfoV2 exact_ops 16666667 Max_vote 0 0) \<and>
   getRefreshRate exact_ops scenario_config steady_layer 1000000000 =
     Inr ((Min_vote, 0), steady_layer) \<and>
   getRefreshRate exact_ops scenario_config steady_layer 50331648 =
     Inr ((Heuristic, 1953125 / 32768),
          steady_layer\<lparr>mLastReportedRefreshRate := 1953125 / 32768\<rparr>) \<and>
   getRefreshRate exact_ops scenario_config single_layer 16777216 =
     Inr ((Max_vote, 0), single_layer)"
proof -
  let ?explicit = "LayerInfoV2 exact_ops 16666667 Max_vote 0 0 :: rat LayerInfoV2_state"
  have x: "vote_type (mLayerVote ?explicit) \<noteq> Heuristic"
    "vote_type (mLayerVote ?explicit) = Max_vote" "fps (mLayerVote ?explicit) = 0"
    by (simp_all add: LayerInfoV2_def exact_ops_def)
  have h: "vote_type (mLayerVote steady_layer) = Heuristic"
    "vote_type (mLayerVote single_layer) = Heuristic"
    by (simp_all add: steady_layer_eq single_layer_eq)
  have z: "f_zero exact_ops = 0" by (simp add: exact_ops_def)
  have "getRefreshRate exact_ops scenario_config ?explicit 50331648 = Inr ((Max_vote, 0), ?explicit)"
    using getRefreshRate_cases [where st = ?explicit and ops = exact_ops
        and cfg = scenario_config and now = 50331648] x
    by simp
  moreover have "getRefreshRate exact_ops scenario_config steady_layer 1000000000 =
     Inr ((Min_vote, 0), steady_layer)"
    using getRefreshRate_cases [where st = steady_layer and ops = exact_ops
        and cfg = scenario_config and now = 1000000000] h steady_infrequent z
    by simp
  moreover have "getRefreshRate exact_ops scenario_config steady_layer 50331648 =
     Inr ((Heuristic, 1953125 / 32768),
          steady_layer\<lparr>mLastReportedRefreshRate := 1953125 / 32768\<rparr>)"
    using getRefreshRate_cases [where st = steady_layer and ops = exact_ops
        and cfg = scenario_config and now = 50331648 and v = "1953125 / 32768"
        and st' = "steady_layer\<lparr>mLastReportedRefreshRate := 1953125 / 32768\<rparr>"]
      h steady_frequent steady_calculate
    by simp
  moreover have "getRefreshRate exact_ops scenario_config single_layer 16777216 =
     Inr ((Max_vote, 0), single_layer)"
    using getRefreshRate_cases [where st = single_layer and ops = exact_ops
        and cfg = scenario_config and now = 16777216 and st' = single_layer]
      h single_frequent single_calculate z
    by simp
  ultimately show ?thesis by simp
qed

theorem getRefreshRate_frame_witness:
  "getRefreshRate exact_ops scenario_config steady_layer 50331648 =
     Inr ((Heuristic, 1953125 / 32768),
          steady_layer\<lparr>mLastReportedRefreshRate := 1953125 / 32768\<rparr>) \<and>
   mFrameTimes (steady_layer\<lparr>mLastReportedRefreshRate := 1953125 / 32768\<rparr>) =
     mFrameTimes steady_layer \<and>
   mLayerVote (steady_layer\<lparr>mLastReportedRefreshRate := 1953125 / 32768\<rparr>) =
     mLayerVote steady_layer \<and>
   calculateRefreshRateIfPossible exact_ops scenario_config single_layer =
     Inr (None, single_layer)"
proof -
  have "vote_type (mLayerVote steady_layer) = Heuristic" by (simp add: steady_layer_eq)
  then have g: "getRefreshRate exact_ops scenario_config steady_layer 50331648 =
     Inr ((Heuristic, 1953125 / 32768),
          steady_layer\<lparr>mLastReportedRefreshRate := 1953125 / 32768\<rparr>)"
    by (simp add: getRefreshRate_def steady_frequent steady_calculate)
  show ?thesis
    using g single_calculate
      getRefreshRate_frame [where ops = exact_ops and cfg = scenario_config
        and st = steady_layer and now = 50331648 and vote = "(Heuristic, 1953125 / 32768)"
        and st' = "steady_layer\<lparr>mLastReportedRefreshRate := 1953125 / 32768\<rparr>"]
    by simp
qed

theorem hysteresis_update_witness:
  "calculateRefreshRateIfPossible exact_ops scenario_config steady_layer =
     Inr (Some (1953125 / 32768), steady_layer\<lparr>mLastReportedRefreshRate := 1953125 / 32768\<rparr>)"
proof -
  have b: "burstLoop exact_ops (mHighRefreshRatePeriod steady_layer)
             (averageFrameTime exact_ops steady_layer 33554432) (mFrameTimes steady_layer) = Inr True"
    using steady_burst by (simp only: steady_average)
  have gt: "f_gt exact_ops (f_abs exact_ops (f_sub exact_ops
              (refreshRate exact_ops (averageFrameTime exact_ops steady_layer 33554432))
              (mLastReportedRefreshRate steady_layer))) (MARGIN exact_ops)"
    by (simp add: steady_average steady_rate) (simp add: steady_layer_eq exact_ops_def)
  from hysteresis_update [OF steady_enough steady_sum b refl]
  obtain st' where c: "calculateRefreshRateIfPossible exact_ops scenario_config steady_layer =
                  Inr (Some (mLastReportedRefreshRate st'), st')"
    and f: "st' = steady_layer\<lparr>mLastReportedRefreshRate := mLastReportedRefreshRate st'\<rparr>"
    and u: "mLastReportedRefreshRate st' =
              refreshRate exact_ops (averageFrameTime exact_ops steady_layer 33554432)"
    using gt by blast
  have l: "mLastReportedRefreshRate st' = 1953125 / 32768"
    using u by (simp only: steady_average steady_rate)
  have st: "st' = steady_layer\<lparr>mLastReportedRefreshRate := 1953125 / 32768\<rparr>"
    using f l by metis
  from c have "calculateRefreshRateIfPossible exact_ops scenario_config steady_layer =
                 Inr (Some (1953125 / 32768), st')"
    by (simp only: l)
  then show ?thesis by (simp only: st)
qed

theorem hysteresis_idempotent_witness:
  "calculateRefreshRateIfPossible exact_ops scenario_config
     (steady_layer\<lparr>mLastReportedRefreshRate := 1953125 / 32768\<rparr>) =
     Inr (Some (1953125 / 32768), steady_layer\<lparr>mLastReportedRefreshRate := 1953125 / 32768\<rparr>)"
proof -
  have "\<not> f_gt exact_ops (f_abs exact_ops (f_sub exact_ops
              (refreshRate exact_ops (averageFrameTime exact_ops steady_layer 33554432))
              (1953125 / 32768))) (MARGIN exact_ops)"
    by (simp add: steady_average steady_rate) (simp add: exact_ops_def)
  from hysteresis_idempotent [OF steady_calculate steady_sum refl this refl refl refl]
  show ?thesis .
qed

lemma bursty_enough: "hasEnoughDataForHeuristic wide_config bursty_layer = Inr True"
  by (simp add: bursty_layer_eq eval_defs)

lemma bursty_deltas:
  "deltas (mHighRefreshRatePeriod bursty_layer) (mFrameTimes bursty_layer) =
     [16777216, 16777216, 16777216, 218103808]"
  by (simp add: bursty_layer_eq eval_defs)

lemma bursty_average: "averageDelta exact_ops bursty_layer = 67108864"
  by (simp add: averageDelta_def bursty_deltas) (simp add: bursty_layer_eq eval_defs)

lemma steady_deltas:
  "deltas (mHighRefreshRatePeriod steady_layer) (mFrameTimes steady_layer) = [16777216, 16777216]"
  by (simp add: steady_layer_eq eval_defs)

lemma steady_averageDelta: "averageDelta exact_ops steady_layer = 16777216"
  by (simp add: averageDelta_def steady_deltas) (simp add: steady_layer_eq eval_defs)

lemma floored_layer_eq:
  "floored_layer =
     \<lparr>mHighRefreshRatePeriod = 16777216, mDefaultVote = Heuristic,
      mLayerVote = \<lparr>vote_type = Heuristic, fps = 0\<rparr>, mLastUpdatedTime = 50331648,
      mFrameTimes = [\<lparr>presetTime = 3000, queueTime = 16777216\<rparr>,
                     \<lparr>presetTime = 2000, queueTime = 33554432\<rparr>,
                     \<lparr>presetTime = 1000, queueTime = 50331648\<rparr>],
      mLastReportedRefreshRate = 0\<rparr>"
  by (simp add: floored_layer_def run_defs)

lemma floored_enough: "hasEnoughDataForHeuristic scenario_config floored_layer = Inr True"
  by (simp add: floored_layer_eq eval_defs)

lemma floored_deltas:
  "deltas (mHighRefreshRatePeriod floored_layer) (mFrameTimes floored_layer) =
     [16777216, 16777216]"
  by (simp add: floored_layer_eq eval_defs)

lemma floored_averageDelta: "averageDelta exact_ops floored_layer = 16777216"
  by (simp add: averageDelta_def floored_deltas) (simp add: floored_layer_eq eval_defs)

lemma floored_reportRate:
  "reportRate exact_ops 16777216 floored_layer =
     (Some (1953125 / 32768), floored_layer\<lparr>mLastReportedRefreshRate := 1953125 / 32768\<rparr>)"
  by (simp add: reportRate_def steady_rate Let_def) (simp add: floored_layer_eq exact_ops_def)

theorem burst_rejection_witness:
  "calculateRefreshRateIfPossible exact_ops wide_config bursty_layer = Inr (None, bursty_layer) \<and>
   calculateRefreshRateIfPossible exact_ops scenario_config steady_layer =
     Inr (Some (1953125 / 32768), steady_layer\<lparr>mLastReportedRefreshRate := 1953125 / 32768\<rparr>) \<and>
   deltas (mHighRefreshRatePeriod floored_layer) (mFrameTimes floored_layer) =
     [16777216, 16777216] \<and>
   calculateRefreshRateIfPossible exact_ops scenario_config floored_layer =
     Inr (Some (1953125 / 32768), floored_layer\<lparr>mLastReportedRefreshRate := 1953125 / 32768\<rparr>)"
proof -
  have "0 < HISTORY_SIZE wide_config" by (simp add: wide_config_def)
  moreover note bursty_enough
  moreover have "\<forall>s \<in> set (pairSamples (mFrameTimes bursty_layer)). presetTime s \<noteq> 0"
    by (simp add: bursty_layer_eq pairSamples_def)
  ultimately have r: "(\<exists>d \<in> set (deltas (mHighRefreshRatePeriod bursty_layer) (mFrameTimes bursty_layer)).
             deviates exact_ops (averageDelta exact_ops bursty_layer) d) \<longrightarrow>
          calculateRefreshRateIfPossible exact_ops wide_config bursty_layer = Inr (None, bursty_layer)"
    using burst_rejection [where cfg = wide_config and st = bursty_layer and ops = exact_ops]
    by blast
  have "deviates exact_ops (averageDelta exact_ops bursty_layer) 218103808"
    by (simp add: bursty_average) (simp add: deviates_def exact_ops_def)
  then have a: "calculateRefreshRateIfPossible exact_ops wide_config bursty_layer =
                  Inr (None, bursty_layer)"
    using r by (simp add: bursty_deltas)
  have "0 < HISTORY_SIZE scenario_config" by (simp add: scenario_config_def)
  moreover note steady_enough
  moreover have "\<forall>s \<in> set (pairSamples (mFrameTimes steady_layer)). presetTime s \<noteq> 0"
    by (simp add: steady_layer_eq pairSamples_def)
  ultimately have s: "\<not> (\<exists>d \<in> set (deltas (mHighRefreshRatePeriod steady_layer) (mFrameTimes steady_layer)).
             deviates exact_ops (averageDelta exact_ops steady_layer) d) \<longrightarrow>
          calculateRefreshRateIfPossible exact_ops scenario_config steady_layer =
            Inr (reportRate exact_ops (averageDelta exact_ops steady_layer) steady_layer)"
    using burst_rejection [where cfg = scenario_config and st = steady_layer and ops = exact_ops]
    by blast
  have "\<not> deviates exact_ops (averageDelta exact_ops steady_layer) 16777216"
    by (simp add: steady_averageDelta) (simp add: deviates_def exact_ops_def)
  then have "calculateRefreshRateIfPossible exact_ops scenario_config steady_layer =
            Inr (reportRate exact_ops (averageDelta exact_ops steady_layer) steady_layer)"
    using s by (simp add: steady_deltas)
  then have b: "calculateRefreshRateIfPossible exact_ops scenario_config steady_layer =
     Inr (Some (1953125 / 32768), steady_layer\<lparr>mLastReportedRefreshRate := 1953125 / 32768\<rparr>)"
    by (simp add: steady_calculate)
  have "\<forall>s \<in> set (pairSamples (mFrameTimes floored_layer)). presetTime s \<noteq> 0"
    by (simp add: floored_layer_eq pairSamples_def)
  with \<open>0 < HISTORY_SIZE scenario_config\<close> floored_enough
  have f: "\<not> (\<exists>d \<in> set (deltas (mHighRefreshRatePeriod floored_layer) (mFrameTimes floored_layer)).
             deviates exact_ops (averageDelta exact_ops floored_layer) d) \<longrightarrow>
          calculateRefreshRateIfPossible exact_ops scenario_config floored_layer =
            Inr (reportRate exact_ops (averageDelta exact_ops floored_layer) floored_layer)"
    using burst_rejection [where cfg = scenario_config and st = floored_layer and ops = exact_ops]
    by blast
  have "\<not> deviates exact_ops (averageDelta exact_ops floored_layer) 16777216"
    by (simp add: floored_averageDelta) (simp add: deviates_def exact_ops_def)
  then have "calculateRefreshRateIfPossible exact_ops scenario_config floored_layer =
            Inr (reportRate exact_ops (averageDelta exact_ops floored_layer) floored_layer)"
    using f by (simp add: floored_deltas)
  then have c: "calculateRefreshRateIfPossible exact_ops scenario_config floored_layer =
     Inr (Some (1953125 / 32768), floored_layer\<lparr>mLastReportedRefreshRate := 1953125 / 32768\<rparr>)"
    by (simp add: floored_averageDelta floored_reportRate)
  show ?thesis using a b c floored_deltas by simp
qed

lemma unstamped_enough: "hasEnoughDataForHeuristic scenario_config unstamped_layer = Inr True"
  by (simp add: unstamped_layer_eq eval_defs)

theorem sentinel_none_witness:
  "calculateRefreshRateIfPossible exact_ops scenario_config unstamped_layer =
     Inr (None, unstamped_layer)"
proof -
  have "\<exists>s \<in> set (pairSamples (mFrameTimes unstamped_layer)). presetTime s = 0"
    by (simp add: unstamped_layer_eq pairSamples_def)
  with unstamped_enough show ?thesis by (rule sentinel_none)
qed

theorem enough_data_two_samples_witness:
  "2 \<le> length (mFrameTimes steady_layer) \<and>
   1 \<le> length (mFrameTimes steady_layer) - 1 \<and>
   deltas (mHighRefreshRatePeriod steady_layer) (mFrameTimes steady_layer) \<noteq> [] \<and>
   sumLoop (mHighRefreshRatePeriod steady_layer) (mFrameTimes steady_layer) 0 \<noteq> Inl OutOfBounds \<and>
   burstLoop exact_ops (mHighRefreshRatePeriod steady_layer) 16777216 (mFrameTimes steady_layer)
     \<noteq> Inl OutOfBounds"
proof -
  have "mFrameTimes steady_layer \<noteq> []" by (simp add: steady_layer_eq)
  moreover note steady_enough
  moreover have "2 \<le> HISTORY_SIZE scenario_config" by (simp add: scenario_config_def)
  moreover have "0 < HISTORY_TIME scenario_config" by (simp add: scenario_config_def)
  ultimately show ?thesis by (rule enough_data_two_samples)
qed

theorem getRefreshRate_empty_history_witness:
  "isFrequent scenario_config fresh_layer 0 = Inr True \<and>
   hasEnoughDataForHeuristic scenario_config fresh_layer = Inl OutOfBounds \<and>
   getRefreshRate exact_ops scenario_config fresh_layer 0 = Inl OutOfBounds"
proof -
  have "0 < FREQUENT_LAYER_WINDOW_SIZE scenario_config" "0 < HISTORY_SIZE scenario_config"
    by (simp_all add: scenario_config_def)
  then show ?thesis unfolding fresh_layer_def by (rule getRefreshRate_empty_history)
qed

end
